theory Spec2Isabelle
  imports Complex_Main
begin

section \<open>SpectraTray: the spectral level engine of app.py\<close>

text \<open>
  The engine takes the magnitude spectrum of one audio block, reduces it to one loudness
  value (dB) per frequency band, optionally subtracts a learned noise floor, tracks a
  decaying peak per band, maps every band to an integer level and decides whether the
  tray icon has to be redrawn.

  Python floats and NumPy float arrays are modelled by real numbers and lists of reals
  with exact arithmetic: rounding, overflow and the float32 storage of NumPy arrays are
  outside the model. A NaN has no counterpart among the reals; where NumPy would produce
  one (a reduction over an empty array) the model returns the error value
  \<open>NotANumber\<close>. Exceptions are values of the type \<open>error\<close>.
\<close>

subsection \<open>Errors and small helpers\<close>

datatype error =
    ZeroDivisionError
  | MathDomainError
  | UnknownStatMode string
  | ZeroSizeArray
  | NotANumber
  | IndexError

text \<open>\<open>clamp(x, a, b)\<close>: \<open>a if x < a else (b if x > b else x)\<close>.\<close>

definition clamp :: "'a::linorder \<Rightarrow> 'a \<Rightarrow> 'a \<Rightarrow> 'a" where
  "clamp x a b = (if x < a then a else (if x > b then b else x))"

text \<open>Python's \<open>round\<close> of a float to an integer: to the nearest, a tie to the even one.\<close>

definition py_round :: "real \<Rightarrow> int" where
  "py_round x =
     (let f = \<lfloor>x\<rfloor>; r = x - of_int f
      in if r < 1 / 2 then f
         else if r > 1 / 2 then f + 1
         else if even f then f else f + 1)"

text \<open>Python's \<open>int\<close> of a float: truncation towards zero.\<close>

definition py_int :: "real \<Rightarrow> int" where
  "py_int x = (if 0 \<le> x then \<lfloor>x\<rfloor> else \<lceil>x\<rceil>)"

text \<open>The slice \<open>xs[a:b]\<close> for indices \<open>0 \<le> a\<close>, \<open>0 \<le> b\<close>: it is cut at the end of the list.\<close>

definition slice :: "'a list \<Rightarrow> nat \<Rightarrow> nat \<Rightarrow> 'a list" where
  "slice xs a b = take (b - a) (drop a xs)"

subsection \<open>The NumPy reductions the engine calls\<close>

text \<open>\<open>np.max\<close>: the largest element; it raises ValueError on an empty array.\<close>

definition np_max :: "real list \<Rightarrow> error + real" where
  "np_max xs = (case xs of [] \<Rightarrow> Inl ZeroSizeArray | x # rest \<Rightarrow> Inr (fold max rest x))"

text \<open>\<open>np.mean\<close> of a non-empty array.\<close>

definition np_mean :: "real list \<Rightarrow> real" where
  "np_mean xs = sum_list xs / real (length xs)"

text \<open>
  \<open>np.percentile(xs, q)\<close> with the default method (linear): on the sorted array the
  virtual index is \<open>(n - 1) * q / 100\<close>; the result interpolates linearly between the
  entries at its floor and at the next index (kept inside the array). NaN on an empty array.
\<close>

definition percentile_linear :: "real list \<Rightarrow> real \<Rightarrow> real" where
  "percentile_linear xs q =
     (let s = sort xs;
          n = length xs;
          v = real (n - 1) * (q / 100);
          lo = nat \<lfloor>v\<rfloor>;
          hi = min (lo + 1) (n - 1);
          g = v - real lo
      in s ! lo + (s ! hi - s ! lo) * g)"

definition np_percentile :: "real list \<Rightarrow> real \<Rightarrow> error + real" where
  "np_percentile xs q = (if xs = [] then Inl NotANumber else Inr (percentile_linear xs q))"

text \<open>
  \<open>np.median\<close> of a non-empty one-dimensional array: the middle entry of the sorted
  array, or the mean of the two middle entries when the length is even.
\<close>

definition np_median :: "real list \<Rightarrow> real" where
  "np_median xs =
     (let s = sort xs; n = length xs
      in if odd n then s ! (n div 2) else (s ! (n div 2 - 1) + s ! (n div 2)) / 2)"

subsection \<open>Band plan: \<open>build_band_bins\<close>\<close>

text \<open>
  \<open>np.fft.rfftfreq(n, d)\<close>: \<open>val = 1.0 / (n * d)\<close>, \<open>N = n // 2 + 1\<close>, the result is
  \<open>arange(0, N) * val\<close>. The division raises ZeroDivisionError when \<open>n * d\<close> is zero; a
  negative \<open>n\<close> gives an empty array.
\<close>

definition rfftfreq :: "int \<Rightarrow> real \<Rightarrow> error + real list" where
  "rfftfreq n d =
     (if of_int n * d = 0 then Inl ZeroDivisionError
      else
        (let val = 1 / (of_int n * d); N = n div 2 + 1
         in Inr (map (\<lambda>k. real k * val) [0..<nat N])))"

text \<open>
  \<open>np.linspace(start, stop, num)\<close>: \<open>step = (stop - start) / (num - 1)\<close>, entry \<open>i\<close> is
  \<open>start + i * step\<close>, and the last entry is set to \<open>stop\<close> when \<open>num > 1\<close>.
  \<open>np.logspace\<close> raises 10 to these exponents.
\<close>

definition linspace :: "real \<Rightarrow> real \<Rightarrow> nat \<Rightarrow> real list" where
  "linspace start stop num =
     (let step = (stop - start) / real (num - 1)
      in map (\<lambda>i. if 1 < num \<and> i = num - 1 then stop else start + real i * step) [0..<num])"

definition logspace :: "real \<Rightarrow> real \<Rightarrow> nat \<Rightarrow> real list" where
  "logspace start stop num = map (\<lambda>y. 10 powr y) (linspace start stop num)"

text \<open>
  One band: \<open>idx = np.where((freqs >= lo) & (freqs < hi))[0]\<close>; the band is \<open>(0, 0)\<close>
  when \<open>idx\<close> is empty and \<open>(idx[0], idx[-1] + 1)\<close> otherwise.
\<close>

definition band_range :: "real list \<Rightarrow> real \<Rightarrow> real \<Rightarrow> nat \<times> nat" where
  "band_range freqs lo hi =
     (let idx = filter (\<lambda>k. lo \<le> freqs ! k \<and> freqs ! k < hi) [0..<length freqs]
      in if idx = [] then (0, 0) else (hd idx, last idx + 1))"

text \<open>
  \<open>build_band_bins(sr, nfft, n_bands, fmin, fmax)\<close>. The function validates nothing
  itself: \<open>1.0 / sr\<close> and \<open>rfftfreq\<close> raise ZeroDivisionError, \<open>math.log10\<close> raises
  ValueError (math domain error) on a non-positive argument.
\<close>

definition build_band_bins :: "real \<Rightarrow> int \<Rightarrow> nat \<Rightarrow> real \<Rightarrow> real \<Rightarrow> error + (nat \<times> nat) list" where
  "build_band_bins sr nfft n_bands fmin fmax =
     (if sr = 0 then Inl ZeroDivisionError
      else
        (case rfftfreq nfft (1 / sr) of
           Inl e \<Rightarrow> Inl e
         | Inr freqs \<Rightarrow>
             if fmin \<le> 0 then Inl MathDomainError
             else if fmax \<le> 0 then Inl MathDomainError
             else
               (let edges = logspace (log 10 fmin) (log 10 fmax) (n_bands + 1)
                in Inr (map (\<lambda>i. band_range freqs (edges ! i) (edges ! (i + 1))) [0..<n_bands]))))"

subsection \<open>The state of the meter and of its worker\<close>

text \<open>
  The attributes of \<open>TraySpectrumMeter\<close> that the worker reads or writes. The two events
  \<open>_force_redraw\<close> and \<open>_learn_noise\<close> are booleans.
\<close>

record meter =
  max_level :: int
  db_range :: real
  bg_mode :: string
  denoise_enabled :: bool
  denoise_alpha :: real
  noise_band_db :: "real list option"
  band_stat :: string
  force_redraw :: bool
  learn_noise :: bool

text \<open>Attributes set in \<open>__init__\<close> and never assigned again.\<close>

definition peak_decay_db :: real where
  "peak_decay_db = 6 / 100"

definition denoise_gate_margin_db :: real where
  "denoise_gate_margin_db = 0"

text \<open>The local variables of \<open>_worker\<close> that live across frames.\<close>

record worker =
  band_peak_db :: "real list"
  last_levels :: "int list option"
  last_db_range :: "real option"
  last_bg_mode :: "string option"
  last_stat_mode :: "string option"

text \<open>The setters of the control surface: they store the value and set \<open>_force_redraw\<close>.\<close>

definition set_db_range :: "real \<Rightarrow> meter \<Rightarrow> meter" where
  "set_db_range r m = m\<lparr>db_range := r, force_redraw := True\<rparr>"

definition set_bg_mode :: "string \<Rightarrow> meter \<Rightarrow> meter" where
  "set_bg_mode mode m = m\<lparr>bg_mode := mode, force_redraw := True\<rparr>"

definition set_band_stat :: "string \<Rightarrow> meter \<Rightarrow> meter" where
  "set_band_stat mode m = m\<lparr>band_stat := mode, force_redraw := True\<rparr>"

subsection \<open>Frame analysis: dB spectrum and band statistic\<close>

text \<open>\<open>mag_db = 20.0 * np.log10(mag + 1e-8)\<close>; \<open>mag\<close> holds moduli, which are not negative.\<close>

definition to_db :: "real list \<Rightarrow> real list" where
  "to_db mag = map (\<lambda>x. 20 * log 10 (x + 1 / 10 ^ 8)) mag"

text \<open>The statistic of one non-empty band over its slice \<open>seg\<close> of the dB spectrum.\<close>

definition band_stat_db :: "string \<Rightarrow> real list \<Rightarrow> error + real" where
  "band_stat_db stat_mode seg =
     (if stat_mode = ''max'' then np_max seg
      else if stat_mode = ''p90'' then np_percentile seg 90
      else if stat_mode = ''rms'' then
        (if seg = [] then Inl NotANumber
         else
           (let amp = map (\<lambda>d. 10 powr (d / 20)) seg
            in Inr (20 * log 10 (sqrt (np_mean (map (\<lambda>a. a * a) amp)) + 1 / 10 ^ 12))))
      else Inl (UnknownStatMode stat_mode))"

subsection \<open>Denoiser\<close>

text \<open>
  Power-domain subtraction and gate for one band with noise estimate \<open>n\<close>:
  \<open>P = 10 ** (band_db / 10)\<close>, \<open>N = 10 ** (n / 10)\<close>, \<open>Pclean = max(P - alpha * N, 1e-12)\<close>,
  \<open>band_db = 10 * log10(Pclean)\<close>, forced to -120 when below \<open>n + denoise_gate_margin_db\<close>.
\<close>

definition power_subtract :: "real \<Rightarrow> real \<Rightarrow> real \<Rightarrow> real" where
  "power_subtract alpha n band_db =
     (let P = 10 powr (band_db / 10);
          N = 10 powr (n / 10);
          Pclean = max (P - alpha * N) (1 / 10 ^ 12);
          d = 10 * log 10 Pclean
      in if d < n + denoise_gate_margin_db then - 120 else d)"

definition denoise :: "meter \<Rightarrow> nat \<Rightarrow> real \<Rightarrow> error + real" where
  "denoise m i band_db =
     (if denoise_enabled m then
        (case noise_band_db m of
           None \<Rightarrow> Inr band_db
         | Some nb \<Rightarrow>
             if i < length nb then Inr (power_subtract (denoise_alpha m) (nb ! i) band_db)
             else Inl IndexError)
      else Inr band_db)"

text \<open>
  The dB value of band \<open>i\<close> with bins \<open>(a, b)\<close>: an empty band is -120 and skips both the
  statistic and the denoiser.
\<close>

definition band_db_of :: "meter \<Rightarrow> real list \<Rightarrow> nat \<Rightarrow> nat \<times> nat \<Rightarrow> error + real" where
  "band_db_of m mag_db i ab =
     (case ab of (a, b) \<Rightarrow>
        if b \<le> a then Inr (- 120)
        else
          (case band_stat_db (band_stat m) (slice mag_db a b) of
             Inl e \<Rightarrow> Inl e
           | Inr band_db \<Rightarrow> denoise m i band_db))"

subsection \<open>Peak tracker and normalizer\<close>

text \<open>\<open>band_peak_db[i] = max(band_db, band_peak_db[i] - self.peak_decay_db)\<close>.\<close>

definition peak_update :: "real \<Rightarrow> real \<Rightarrow> real" where
  "peak_update band_db peak = max band_db (peak - peak_decay_db)"

text \<open>
  \<open>floor = peak - db_range\<close>, \<open>t = clamp((band_db - floor) / db_range, 0.0, 1.0)\<close>,
  \<open>lv = int(round(t * max_level))\<close>, the level is \<open>clamp(lv, 0, max_level)\<close>. The float
  division raises ZeroDivisionError for \<open>db_range = 0\<close>.
\<close>

definition normalize_level :: "real \<Rightarrow> int \<Rightarrow> real \<Rightarrow> real \<Rightarrow> error + int" where
  "normalize_level dbr mx peak band_db =
     (let floor_db = peak - dbr
      in if dbr = 0 then Inl ZeroDivisionError
         else
           (let t = clamp ((band_db - floor_db) / dbr) 0 1;
                lv = py_round (t * of_int mx)
            in Inr (clamp lv 0 mx)))"

text \<open>One pass of the loop body for band \<open>i\<close>: the new peaks and the level appended.\<close>

definition band_step :: "meter \<Rightarrow> real list \<Rightarrow> real list \<Rightarrow> nat \<Rightarrow> nat \<times> nat \<Rightarrow> error + (real list \<times> int)" where
  "band_step m mag_db peaks i ab =
     (case band_db_of m mag_db i ab of
        Inl e \<Rightarrow> Inl e
      | Inr band_db \<Rightarrow>
          if i < length peaks then
            (let peaks' = peaks[i := peak_update band_db (peaks ! i)]
             in case normalize_level (db_range m) (max_level m) (peaks' ! i) band_db of
                  Inl e \<Rightarrow> Inl e
                | Inr lv \<Rightarrow> Inr (peaks', lv))
          else Inl IndexError)"

text \<open>\<open>for i, (a, b) in enumerate(bins)\<close>, started at index \<open>i\<close>.\<close>

fun levels_loop :: "meter \<Rightarrow> real list \<Rightarrow> nat \<Rightarrow> (nat \<times> nat) list \<Rightarrow> real list \<Rightarrow> error + (real list \<times> int list)" where
  "levels_loop m mag_db i [] peaks = Inr (peaks, [])"
| "levels_loop m mag_db i (ab # rest) peaks =
     (case band_step m mag_db peaks i ab of
        Inl e \<Rightarrow> Inl e
      | Inr (peaks', lv) \<Rightarrow>
          (case levels_loop m mag_db (Suc i) rest peaks' of
             Inl e \<Rightarrow> Inl e
           | Inr (peaks'', lvs) \<Rightarrow> Inr (peaks'', lv # lvs)))"

subsection \<open>Change detector\<close>

text \<open>
  \<open>if self._force_redraw.is_set()\<close>: the four remembered values are forgotten and the
  event is cleared.
\<close>

definition redraw_reset :: "meter \<Rightarrow> worker \<Rightarrow> meter \<times> worker" where
  "redraw_reset m w =
     (if force_redraw m then
        (m\<lparr>force_redraw := False\<rparr>,
         w\<lparr>last_levels := None, last_db_range := None, last_bg_mode := None, last_stat_mode := None\<rparr>)
      else (m, w))"

text \<open>The comparison with the remembered values; \<open>None\<close> differs from every value.\<close>

definition changed :: "worker \<Rightarrow> int list \<Rightarrow> real \<Rightarrow> string \<Rightarrow> string \<Rightarrow> bool" where
  "changed w levels dbr bg stat =
     (Some levels \<noteq> last_levels w \<or> Some dbr \<noteq> last_db_range w \<or>
      Some bg \<noteq> last_bg_mode w \<or> Some stat \<noteq> last_stat_mode w)"

text \<open>
  The end of a frame. The third component is the icon handed to the tray, made from
  \<open>(levels, max_level, bg_mode)\<close>, or \<open>None\<close> when the frame is suppressed.
\<close>

definition change_detector ::
  "meter \<Rightarrow> worker \<Rightarrow> int list \<Rightarrow> real \<Rightarrow> string \<Rightarrow> int \<Rightarrow> string \<Rightarrow>
   meter \<times> worker \<times> (int list \<times> int \<times> string) option" where
  "change_detector m w levels dbr bg mx stat =
     (case redraw_reset m w of
        (m1, w1) \<Rightarrow>
          if changed w1 levels dbr bg stat then
            (m1,
             w1\<lparr>last_levels := Some levels, last_db_range := Some dbr,
                last_bg_mode := Some bg, last_stat_mode := Some stat\<rparr>,
             Some (levels, mx, bg))
          else (m1, w1, None))"

text \<open>
  A frame from the magnitude spectrum on: dB conversion, the settings read once, the
  levels of all bands, the change detector.
\<close>

definition process_frame ::
  "meter \<Rightarrow> worker \<Rightarrow> (nat \<times> nat) list \<Rightarrow> real list \<Rightarrow>
   error + (meter \<times> worker \<times> (int list \<times> int \<times> string) option)" where
  "process_frame m w bins mag =
     (let mag_db = to_db mag;
          dbr = db_range m;
          bg = bg_mode m;
          mx = max_level m;
          stat = band_stat m
      in case levels_loop m mag_db 0 bins (band_peak_db w) of
           Inl e \<Rightarrow> Inl e
         | Inr (peaks, levels) \<Rightarrow>
             Inr (change_detector m (w\<lparr>band_peak_db := peaks\<rparr>) levels dbr bg mx stat))"

subsection \<open>Noise profile learner\<close>

text \<open>\<open>learn_frames = max(12, int(3 * sr / nfft))\<close>.\<close>

definition learn_frames :: "int \<Rightarrow> int \<Rightarrow> error + int" where
  "learn_frames sr nfft =
     (if nfft = 0 then Inl ZeroDivisionError
      else Inr (max 12 (py_int (of_int (3 * sr) / of_int nfft))))"

text \<open>\<open>band_db_list\<close> of one captured frame: -120 for an empty band, else the 90th percentile.\<close>

fun band_db_list :: "(nat \<times> nat) list \<Rightarrow> real list \<Rightarrow> error + real list" where
  "band_db_list [] mag2_db = Inr []"
| "band_db_list ((a, b) # rest) mag2_db =
     (case (if b \<le> a then Inr (- 120) else np_percentile (slice mag2_db a b) 90) of
        Inl e \<Rightarrow> Inl e
      | Inr v \<Rightarrow>
          (case band_db_list rest mag2_db of
             Inl e \<Rightarrow> Inl e
           | Inr vs \<Rightarrow> Inr (v # vs)))"

text \<open>
  The capture loop \<open>for _ in range(learn_frames)\<close>. The environment \<open>env j\<close> gives, for
  iteration \<open>j\<close>, whether the stop event is set when the loop tests it, and the magnitude
  spectrum of the block the recorder returns (\<open>None\<close> for an empty read). \<open>i\<close> is the
  current iteration, \<open>k\<close> the number of iterations left.
\<close>

fun learn_loop ::
  "(nat \<times> nat) list \<Rightarrow> (nat \<Rightarrow> bool \<times> real list option) \<Rightarrow> nat \<Rightarrow> nat \<Rightarrow> real list list \<Rightarrow>
   error + real list list" where
  "learn_loop bins env i 0 buf = Inr buf"
| "learn_loop bins env i (Suc k) buf =
     (case env i of
        (stop, data2) \<Rightarrow>
          if stop then Inr buf
          else
            (case data2 of
               None \<Rightarrow> learn_loop bins env (Suc i) k buf
             | Some mag2 \<Rightarrow>
                 (case band_db_list bins (to_db mag2) of
                    Inl e \<Rightarrow> Inl e
                  | Inr row \<Rightarrow> learn_loop bins env (Suc i) k (buf @ [row]))))"

text \<open>\<open>np.median(np.array(buf), axis=0)\<close> for rows of \<open>n\<close> entries.\<close>

definition median_axis0 :: "nat \<Rightarrow> real list list \<Rightarrow> real list" where
  "median_axis0 n buf = map (\<lambda>j. np_median (map (\<lambda>row. row ! j) buf)) [0..<n]"

text \<open>The branch \<open>if self._learn_noise.is_set()\<close> of a frame.\<close>

definition learn ::
  "meter \<Rightarrow> int \<Rightarrow> int \<Rightarrow> (nat \<times> nat) list \<Rightarrow> (nat \<Rightarrow> bool \<times> real list option) \<Rightarrow> error + meter" where
  "learn m sr nfft bins env =
     (if learn_noise m then
        (let m1 = m\<lparr>learn_noise := False\<rparr>
         in case learn_frames sr nfft of
              Inl e \<Rightarrow> Inl e
            | Inr n \<Rightarrow>
                (case learn_loop bins env 0 (nat n) [] of
                   Inl e \<Rightarrow> Inl e
                 | Inr buf \<Rightarrow>
                     if buf \<noteq> [] then
                       Inr (m1\<lparr>noise_band_db := Some (median_axis0 (length bins) buf),
                               force_redraw := True\<rparr>)
                     else Inr m1))
      else Inr m)"

text \<open>One iteration of the worker loop after a non-empty read with spectrum \<open>mag\<close>.\<close>

definition worker_iteration ::
  "meter \<Rightarrow> worker \<Rightarrow> int \<Rightarrow> int \<Rightarrow> (nat \<times> nat) list \<Rightarrow> real list \<Rightarrow>
   (nat \<Rightarrow> bool \<times> real list option) \<Rightarrow>
   error + (meter \<times> worker \<times> (int list \<times> int \<times> string) option)" where
  "worker_iteration m w sr nfft bins mag env =
     (case learn m sr nfft bins env of
        Inl e \<Rightarrow> Inl e
      | Inr m1 \<Rightarrow> process_frame m1 w bins mag)"

subsection \<open>The band edges of the specification\<close>

text \<open>\<open>edge[i] = minFrequency * (maxFrequency / minFrequency) ^ (i / bandCount)\<close>.\<close>

definition band_edge :: "real \<Rightarrow> real \<Rightarrow> nat \<Rightarrow> nat \<Rightarrow> real" where
  "band_edge fmin fmax n_bands i = fmin * (fmax / fmin) powr (real i / real n_bands)"

subsection \<open>What a learn request captures\<close>

text \<open>
  The frames a learn request of \<open>n\<close> iterations captures: the non-empty reads of the
  iterations before the first one that finds the stop event set.
\<close>

definition captured_frames :: "(nat \<Rightarrow> bool \<times> real list option) \<Rightarrow> nat \<Rightarrow> real list list" where
  "captured_frames env n =
     List.map_filter (\<lambda>j. snd (env j)) (takeWhile (\<lambda>j. \<not> fst (env j)) [0..<n])"

text \<open>The 90th percentile of every band of one frame, -120 for an empty band.\<close>

definition band_p90 :: "(nat \<times> nat) list \<Rightarrow> real list \<Rightarrow> real list" where
  "band_p90 bins mag =
     map (\<lambda>(a, b). if b \<le> a then - 120 else percentile_linear (slice (to_db mag) a b) 90) bins"

text \<open>Every non-empty band of the plan starts inside a spectrum of this length.\<close>

definition bins_fit :: "(nat \<times> nat) list \<Rightarrow> nat \<Rightarrow> bool" where
  "bins_fit bins n = list_all (\<lambda>(a, b). b \<le> a \<or> a < n) bins"

subsection \<open>Initial state and the level of the specification\<close>

text \<open>The values \<open>__init__\<close> gives the attributes (\<open>default_levels = 10\<close>).\<close>

definition default_meter :: meter where
  "default_meter =
     \<lparr>max_level = 10, db_range = 60, bg_mode = ''black'', denoise_enabled = False,
      denoise_alpha = 12 / 10, noise_band_db = None, band_stat = ''rms'',
      force_redraw = False, learn_noise = False\<rparr>"

text \<open>The worker's locals before the first frame: every peak at -30 dB, nothing delivered.\<close>

definition initial_worker :: "nat \<Rightarrow> worker" where
  "initial_worker n_bands =
     \<lparr>band_peak_db = replicate n_bands (- 30), last_levels = None, last_db_range = None,
      last_bg_mode = None, last_stat_mode = None\<rparr>"

text \<open>
  The level as the specification words it: \<open>floor = peak - dynamicRange\<close>,
  \<open>t = clamp((b - floor) / dynamicRange, 0, 1)\<close>, \<open>level = round(t * maxLevel)\<close> clamped to
  \<open>[0, maxLevel]\<close>.
\<close>

definition spec_level :: "real \<Rightarrow> int \<Rightarrow> real \<Rightarrow> real \<Rightarrow> int" where
  "spec_level dbr mx peak b =
     clamp (py_round (clamp ((b - (peak - dbr)) / dbr) 0 1 * of_int mx)) 0 mx"

section \<open>Properties\<close>

subsection \<open>Rounding and clamping\<close>






subsection \<open>The normalizer\<close>

lemma normalize_level_eq:
  "dbr \<noteq> 0 \<Longrightarrow> normalize_level dbr mx peak b = Inr (spec_level dbr mx peak b)"
  by (simp add: normalize_level_def spec_level_def Let_def)







subsection \<open>The loop over the bands\<close>

lemma band_step_InrD:
  assumes "band_step m mag_db peaks i ab = Inr (peaks', lv)"
  shows "\<exists>b. band_db_of m mag_db i ab = Inr b \<and> i < length peaks \<and>
             peaks' = peaks[i := peak_update b (peaks ! i)] \<and>
             normalize_level (db_range m) (max_level m) (peak_update b (peaks ! i)) b = Inr lv"
  using assms by (auto simp: band_step_def Let_def split: sum.splits if_splits)

lemma levels_loop_length:
  "levels_loop m mag_db i bins peaks = Inr (peaks', lvs) \<Longrightarrow>
     length lvs = length bins \<and> length peaks' = length peaks"
proof (induction bins arbitrary: i peaks peaks' lvs)
  case Nil
  then show ?case by simp
next
  case (Cons ab rest)
  then show ?case
    by (fastforce split: sum.splits prod.splits dest!: band_step_InrD)
qed



text \<open>
  The loop returns levels whenever the dynamic range is not zero, there is a peak for
  every band and every band has a dB value.
\<close>

lemma levels_loop_returns:
  "db_range m \<noteq> 0 \<Longrightarrow> i + length bins \<le> length peaks \<Longrightarrow>
   (\<And>j. j < length bins \<Longrightarrow> \<exists>b. band_db_of m mag_db (i + j) (bins ! j) = Inr b) \<Longrightarrow>
   \<exists>peaks' lvs. levels_loop m mag_db i bins peaks = Inr (peaks', lvs)"
proof (induction bins arbitrary: i peaks)
  case Nil
  then show ?case by simp
next
  case (Cons ab rest)
  from Cons.prems(3) [of 0] obtain b where b: "band_db_of m mag_db i ab = Inr b" by auto
  let ?p1 = "peaks[i := peak_update b (peaks ! i)]"
  obtain lv where s: "band_step m mag_db peaks i ab = Inr (?p1, lv)"
    using b Cons.prems(1,2) by (simp add: band_step_def normalize_level_eq)
  have "\<exists>peaks' lvs. levels_loop m mag_db (Suc i) rest ?p1 = Inr (peaks', lvs)"
  proof (rule Cons.IH)
    show "db_range m \<noteq> 0" by (rule Cons.prems(1))
    show "Suc i + length rest \<le> length ?p1" using Cons.prems(2) by simp
    show "\<exists>b. band_db_of m mag_db (Suc i + j) (rest ! j) = Inr b" if "j < length rest" for j
      using Cons.prems(3) [of "Suc j"] that by simp
  qed
  then show ?case using s by auto
qed


subsection \<open>Peak tracker and level of every band of a frame\<close>



subsection \<open>Bounds after the peak update\<close>



subsection \<open>The peak tracker on a constant input\<close>

lemma peak_update_funpow:
  "(peak_update b ^^ Suc k) p = max b (p - real (Suc k) * peak_decay_db)"
proof (induction k)
  case 0
  show ?case by (simp add: peak_update_def)
next
  case (Suc k)
  have "(peak_update b ^^ Suc (Suc k)) p = peak_update b ((peak_update b ^^ Suc k) p)"
    by simp
  also have "\<dots> = max b (max b (p - real (Suc k) * peak_decay_db) - peak_decay_db)"
    by (simp only: Suc.IH peak_update_def)
  also have "\<dots> = max b (p - real (Suc (Suc k)) * peak_decay_db)"
  proof -
    have d: "0 < peak_decay_db" by (simp add: peak_decay_db_def)
    have e: "real (Suc (Suc k)) * peak_decay_db = real (Suc k) * peak_decay_db + peak_decay_db"
      by (simp add: algebra_simps)
    show ?thesis unfolding e using d by (auto simp: max_def)
  qed
  finally show ?case .
qed

text \<open>
  C9, as the code has it. With a constant input \<open>b\<close> and a starting peak \<open>p\<close>, the tracker
  holds \<open>max(b, p - 0.06 * k)\<close> after \<open>k \<ge> 1\<close> frames. So it equals \<open>b\<close> after \<open>k\<close> frames
  exactly when \<open>p - 0.06 * k \<le> b\<close> (after one frame: exactly when \<open>p \<le> b + 0.06\<close>), and \<open>b\<close>
  is a fixed point: once the peak equals \<open>b\<close> it stays there.
\<close>

theorem peak_constant_input:
  "(peak_update b ^^ Suc k) p = max b (p - real (Suc k) * (6 / 100)) \<and>
   (((peak_update b ^^ Suc k) p = b) = (p - real (Suc k) * (6 / 100) \<le> b)) \<and>
   ((peak_update b p = b) = (p \<le> b + 6 / 100)) \<and>
   peak_update b b = b"
proof -
  have "peak_update b p = b \<longleftrightarrow> p \<le> b + 6 / 100" "peak_update b b = b"
    by (auto simp: peak_update_def peak_decay_db_def max_def)
  then show ?thesis
    using peak_update_funpow [where b = b and k = k and p = p]
    by (auto simp: peak_decay_db_def max_def)
qed

text \<open>
  The claim as stated fails: from the initial peak -30 dB a constant input of -50 dB does
  not bring the peak to -50 dB in one frame, nor in two.
\<close>

theorem peak_not_within_one_frame:
  "peak_update (- 50) (- 30) \<noteq> - 50 \<and> (peak_update (- 50) ^^ 2) (- 30) \<noteq> - 50"
  by (simp add: peak_update_def peak_decay_db_def numeral_2_eq_2)

subsection \<open>Change detector\<close>



subsection \<open>Denoiser\<close>

lemma ten_powr_m12: "(10::real) powr (- 12) = 1 / 10 ^ 12"
  by (simp add: powr_minus_divide)

lemma subtract_zero_powr:
  "10 * log 10 (max (10 powr (b / 10)) (10 powr (- 12))) = max b (- 120 :: real)"
proof (cases "- 120 \<le> b")
  case True
  then have "(10::real) powr (- 12) \<le> 10 powr (b / 10)" by simp
  then have "max (10 powr (b / 10)) (10 powr (- 12) :: real) = 10 powr (b / 10)"
    by (simp only: max_def if_not_P split: if_splits) auto
  then show ?thesis using True by (simp only: max_def) simp
next
  case False
  then have "10 powr (b / 10) \<le> (10::real) powr (- 12)" by simp
  then have "max (10 powr (b / 10)) (10 powr (- 12) :: real) = 10 powr (- 12)"
    by (simp only: max_def if_P)
  then show ?thesis using False by (simp only: max_def) simp
qed

lemma subtract_zero_core:
  "10 * log 10 (max (10 powr (b / 10)) (1 / 10 ^ 12)) = max b (- 120 :: real)"
  unfolding ten_powr_m12 [symmetric] by (rule subtract_zero_powr)

lemma power_subtract_zero:
  "power_subtract 0 n b =
     (if max b (- 120) < n + denoise_gate_margin_db then - 120 else max b (- 120))"
  using subtract_zero_core [of b] by (simp add: power_subtract_def Let_def)

lemma power_subtract_silence:
  assumes "0 \<le> alpha"
  shows "power_subtract alpha n (- 120) = - 120"
proof -
  have "0 \<le> alpha * 10 powr (n / 10)" using assms by simp
  then have "10 powr (- 120 / 10) - alpha * 10 powr (n / 10) \<le> (10::real) powr (- 12)"
    by simp
  then have "max (10 powr (- 120 / 10) - alpha * 10 powr (n / 10)) (10 powr (- 12)) = (10::real) powr (- 12)"
    by (simp only: max_def if_P)
  then have "10 * log 10 (max (10 powr (- 120 / 10) - alpha * 10 powr (n / 10)) (1 / 10 ^ 12)) = - 120"
    unfolding ten_powr_m12 [symmetric] by simp
  then show ?thesis by (simp add: power_subtract_def Let_def)
qed

text \<open>
  C3. Let \<open>r\<close> be the dB value of band \<open>i\<close> before denoising (-120 for an empty band, else
  the band statistic). With denoising enabled and a noise profile \<open>nb\<close>, the band's value
  is \<open>10 * log10(max(10^(r/10) - strength * 10^(n/10), 1e-12))\<close> with \<open>n = nb[i]\<close>, forced
  to -120 when that is below \<open>n + denoise_gate_margin_db\<close>. (The code skips the denoiser
  for an empty band and leaves -120; this is the same value for a strength that is not
  negative.) With denoising disabled or without a profile the value is \<open>r\<close>.
\<close>

theorem denoise_per_band:
  assumes "(if b \<le> a then Inr (- 120) else band_stat_db (band_stat m) (slice mag_db a b)) = Inr r"
  shows "(denoise_enabled m \<and> noise_band_db m = Some nb \<and> i < length nb \<and>
          (a < b \<or> 0 \<le> denoise_alpha m) \<longrightarrow>
            band_db_of m mag_db i (a, b) =
              Inr (let d = 10 * log 10 (max (10 powr (r / 10)
                                              - denoise_alpha m * 10 powr (nb ! i / 10)) (1 / 10 ^ 12))
                   in if d < nb ! i + denoise_gate_margin_db then - 120 else d)) \<and>
         (\<not> denoise_enabled m \<or> noise_band_db m = None \<longrightarrow>
            band_db_of m mag_db i (a, b) = Inr r)"
proof (cases "b \<le> a")
  case True
  with assms have r: "r = - 120" by simp
  have e: "band_db_of m mag_db i (a, b) = Inr (- 120)"
    using True by (simp add: band_db_of_def)
  have "power_subtract (denoise_alpha m) (nb ! i) (- 120) = - 120" if "0 \<le> denoise_alpha m"
    using that by (rule power_subtract_silence)
  then show ?thesis using True e r
    by (auto simp add: power_subtract_def Let_def simp del: power_numeral)
next
  case False
  with assms have s: "band_stat_db (band_stat m) (slice mag_db a b) = Inr r" by simp
  then show ?thesis using False
    by (auto simp: band_db_of_def denoise_def power_subtract_def Let_def)
qed

theorem denoise_per_band_witness:
  "band_db_of (default_meter\<lparr>denoise_enabled := True, noise_band_db := Some [- 60], band_stat := ''max''\<rparr>)
      [- 20] 0 (0, 1)
     = Inr (let d = 10 * log 10 (max (10 powr (- 20 / 10) - 12 / 10 * 10 powr (- 60 / 10)) (1 / 10 ^ 12))
            in if d < - 60 + denoise_gate_margin_db then - 120 else d) \<and>
   band_db_of (default_meter\<lparr>band_stat := ''max''\<rparr>) [- 20] 0 (0, 1) = Inr (- 20) \<and>
   band_db_of (default_meter\<lparr>denoise_enabled := True, noise_band_db := Some [- 60]\<rparr>) [- 20] 0 (0, 0)
     = Inr (- 120)"
proof -
  let ?m = "default_meter\<lparr>denoise_enabled := True, noise_band_db := Some [- 60], band_stat := ''max''\<rparr>"
  let ?d = "default_meter\<lparr>band_stat := ''max''\<rparr>"
  let ?e = "default_meter\<lparr>denoise_enabled := True, noise_band_db := Some [- 60]\<rparr>"
  have r: "(if (1::nat) \<le> 0 then Inr (- 120) else band_stat_db (band_stat ?m) (slice [- 20] 0 1))
             = Inr (- 20)"
    by (simp add: default_meter_def band_stat_db_def np_max_def slice_def)
  have r': "(if (1::nat) \<le> 0 then Inr (- 120) else band_stat_db (band_stat ?d) (slice [- 20] 0 1))
             = Inr (- 20)"
    by (simp add: default_meter_def band_stat_db_def np_max_def slice_def)
  have r'': "(if (0::nat) \<le> 0 then Inr (- 120) else band_stat_db (band_stat ?e) (slice [- 20] 0 0))
             = Inr (- 120)"
    by simp
  have 1: "band_db_of ?m [- 20] 0 (0, 1)
     = Inr (let d = 10 * log 10 (max (10 powr (- 20 / 10) - 12 / 10 * 10 powr (- 60 / 10)) (1 / 10 ^ 12))
            in if d < - 60 + denoise_gate_margin_db then - 120 else d)"
    using denoise_per_band [OF r, of "[- 60]" 0] by (simp add: default_meter_def)
  have 2: "band_db_of ?d [- 20] 0 (0, 1) = Inr (- 20)"
    using denoise_per_band [OF r', of "[]" 0] by (simp add: default_meter_def)
  have 3: "band_db_of ?e [- 20] 0 (0, 0) = Inr (- 120)"
    using denoise_per_band [OF r'', of "[- 60]" 0] by (simp add: default_meter_def band_db_of_def)
  show ?thesis using 1 2 3 by blast
qed

text \<open>
  C8, as the code has it. With strength 0 the denoiser returns \<open>max(b, -120)\<close>, gated:
  it returns -120 when that is below \<open>n + denoise_gate_margin_db\<close>. So \<open>b\<close> is unchanged
  when \<open>-120 \<le> b\<close> and \<open>n + denoise_gate_margin_db \<le> b\<close>, and forced to -120 when
  \<open>b < n + denoise_gate_margin_db\<close>.
\<close>

theorem zero_strength_denoise:
  assumes "denoise_enabled m" "denoise_alpha m = 0" "noise_band_db m = Some nb" "i < length nb"
  shows "denoise m i b =
           Inr (if max b (- 120) < nb ! i + denoise_gate_margin_db then - 120 else max b (- 120)) \<and>
         (- 120 \<le> b \<and> nb ! i + denoise_gate_margin_db \<le> b \<longrightarrow> denoise m i b = Inr b) \<and>
         (b < nb ! i + denoise_gate_margin_db \<longrightarrow> denoise m i b = Inr (- 120))"
  using assms by (auto simp: denoise_def power_subtract_zero max_def)

theorem zero_strength_denoise_witness:
  "denoise (default_meter\<lparr>denoise_enabled := True, denoise_alpha := 0, noise_band_db := Some [- 60]\<rparr>)
     0 (- 20) = Inr (- 20) \<and>
   denoise (default_meter\<lparr>denoise_enabled := True, denoise_alpha := 0, noise_band_db := Some [- 60]\<rparr>)
     0 (- 70) = Inr (- 120)"
proof -
  let ?m = "default_meter\<lparr>denoise_enabled := True, denoise_alpha := 0, noise_band_db := Some [- 60]\<rparr>"
  have h: "denoise_enabled ?m" "denoise_alpha ?m = 0" "noise_band_db ?m = Some [- 60]"
    "0 < length [- 60 :: real]"
    by (simp_all add: default_meter_def)
  show ?thesis
    using zero_strength_denoise [OF h, of "- 20"] zero_strength_denoise [OF h, of "- 70"]
    by (simp add: denoise_gate_margin_db_def)
qed

text \<open>
  The claim as stated fails: with strength 0, a band at -50 dB under a noise estimate
  of -40 dB is gated to -120 dB.
\<close>

theorem zero_strength_gated:
  "denoise (default_meter\<lparr>denoise_enabled := True, denoise_alpha := 0, noise_band_db := Some [- 40]\<rparr>)
     0 (- 50) = Inr (- 120) \<and>
   \<not> \<bar>power_subtract 0 (- 40) (- 50) - (- 50)\<bar> \<le> 1"
  by (simp add: denoise_def default_meter_def power_subtract_zero denoise_gate_margin_db_def)

subsection \<open>Noise profile learner\<close>

lemma slice_nonempty: "a < b \<Longrightarrow> a < length xs \<Longrightarrow> slice xs a b \<noteq> []"
  by (simp add: slice_def)

lemma band_db_list_eq:
  "bins_fit bins (length mag) \<Longrightarrow> band_db_list bins (to_db mag) = Inr (band_p90 bins mag)"
proof (induction bins)
  case Nil
  then show ?case by (simp add: band_p90_def)
next
  case (Cons ab rest)
  obtain a b where ab: "ab = (a, b)" by (cases ab)
  from Cons.prems have fit: "b \<le> a \<or> a < length mag" and rest: "bins_fit rest (length mag)"
    by (simp_all add: bins_fit_def ab)
  have tail: "band_db_list rest (to_db mag) = Inr (band_p90 rest mag)"
    using Cons.IH [OF rest] .
  have "slice (to_db mag) a b \<noteq> []" if "\<not> b \<le> a"
    using that fit by (intro slice_nonempty) (simp_all add: to_db_def)
  then show ?case
    by (simp add: ab tail np_percentile_def band_p90_def)
qed

lemma learn_loop_eq:
  assumes "\<And>j mag. snd (env j) = Some mag \<Longrightarrow> bins_fit bins (length mag)"
  shows "learn_loop bins env i k buf =
           Inr (buf @ map (band_p90 bins)
                  (List.map_filter (\<lambda>j. snd (env j)) (takeWhile (\<lambda>j. \<not> fst (env j)) [i..<i + k])))"
proof (induction k arbitrary: i buf)
  case 0
  show ?case by simp
next
  case (Suc k)
  have u: "[i..<Suc (i + k)] = i # [Suc i..<Suc (i + k)]" by (simp add: upt_rec)
  obtain stop data2 where e: "env i = (stop, data2)" by (cases "env i")
  show ?case
  proof (cases stop)
    case True
    then show ?thesis by (simp add: e u del: upt_Suc)
  next
    case False
    show ?thesis
    proof (cases data2)
      case None
      then show ?thesis using False by (simp add: e u Suc.IH del: upt_Suc)
    next
      case (Some mag2)
      have "band_db_list bins (to_db mag2) = Inr (band_p90 bins mag2)"
        using assms [of i mag2] e Some by (simp add: band_db_list_eq)
      then show ?thesis using False Some by (simp add: e u Suc.IH del: upt_Suc)
    qed
  qed
qed

lemma learn_frames_floor:
  "0 \<le> sr \<Longrightarrow> 0 < nfft \<Longrightarrow> learn_frames sr nfft = Inr (max 12 ((3 * sr) div nfft))"
  by (simp add: learn_frames_def py_int_def floor_divide_of_int_eq del: of_int_mult)

lemma captured_frames_length: "length (captured_frames env n) \<le> n"
proof -
  have "length (captured_frames env n) \<le> length (takeWhile (\<lambda>j. \<not> fst (env j)) [0..<n])"
    by (simp add: captured_frames_def map_filter_def)
  also have "\<dots> \<le> length [0..<n]" by (rule length_takeWhile_le)
  finally show ?thesis by simp
qed

text \<open>
  C5, as the code has it. A learn request runs \<open>max(12, floor(3 * sampleRate /
  transformSize))\<close> iterations (\<open>int\<close> truncates), fewer when the stop event is set, and
  skips empty reads; so it captures at most that many frames. For every captured frame it
  takes the 90th percentile of every band, whatever the configured statistic mode. If at
  least one frame was captured, the noise profile becomes the per-band median over the
  captured frames and the force-redraw flag is set; if none was captured, only the learn
  request is cleared and the previous profile stays.
\<close>

theorem learn_noise_profile:
  assumes "learn_noise m" "0 \<le> sr" "0 < nfft"
    and "\<And>j mag. snd (env j) = Some mag \<Longrightarrow> bins_fit bins (length mag)"
  shows "learn_frames sr nfft = Inr (max 12 \<lfloor>3 * real_of_int sr / real_of_int nfft\<rfloor>) \<and>
         learn m sr nfft bins env =
           Inr (let frames = captured_frames env (nat (max 12 \<lfloor>3 * real_of_int sr / real_of_int nfft\<rfloor>))
                in if frames = [] then m\<lparr>learn_noise := False\<rparr>
                   else m\<lparr>learn_noise := False,
                          noise_band_db :=
                            Some (map (\<lambda>i. np_median (map (\<lambda>mag. band_p90 bins mag ! i) frames))
                                    [0..<length bins]),
                          force_redraw := True\<rparr>) \<and>
         length (captured_frames env (nat (max 12 \<lfloor>3 * real_of_int sr / real_of_int nfft\<rfloor>)))
           \<le> nat (max 12 \<lfloor>3 * real_of_int sr / real_of_int nfft\<rfloor>) \<and>
         (\<forall>s. map_sum id noise_band_db (learn (m\<lparr>band_stat := s\<rparr>) sr nfft bins env)
                = map_sum id noise_band_db (learn m sr nfft bins env))"
proof -
  let ?n = "max 12 \<lfloor>3 * real_of_int sr / real_of_int nfft\<rfloor>"
  have n: "learn_frames sr nfft = Inr ?n"
    using assms(2,3) by (simp add: learn_frames_def py_int_def)
  have loop: "learn_loop bins env 0 (nat ?n) [] = Inr (map (band_p90 bins) (captured_frames env (nat ?n)))"
    using learn_loop_eq [of env bins 0 "nat ?n" "[]"] assms(4)
    by (simp add: captured_frames_def)
  have l: "learn m' sr nfft bins env =
           Inr (let frames = captured_frames env (nat ?n)
                in if frames = [] then m'\<lparr>learn_noise := False\<rparr>
                   else m'\<lparr>learn_noise := False,
                          noise_band_db :=
                            Some (map (\<lambda>i. np_median (map (\<lambda>mag. band_p90 bins mag ! i) frames))
                                    [0..<length bins]),
                          force_redraw := True\<rparr>)" if "learn_noise m'" for m'
    using that by (simp add: learn_def n loop median_axis0_def Let_def comp_def)
  have "map_sum id noise_band_db (learn (m\<lparr>band_stat := s\<rparr>) sr nfft bins env)
          = map_sum id noise_band_db (learn m sr nfft bins env)" for s
    using l [of m] l [of "m\<lparr>band_stat := s\<rparr>"] assms(1) by (simp add: Let_def)
  then show ?thesis using n l [OF assms(1)] captured_frames_length by blast
qed

theorem learn_noise_profile_witness:
  "learn (default_meter\<lparr>learn_noise := True\<rparr>) 48000 4096 [(0, 1), (0, 0)]
      (\<lambda>j. (3 \<le> j, if j = 1 then None else Some [99999999 / 10 ^ 8, 1]))
     = Inr (default_meter\<lparr>noise_band_db := Some [0, - 120], force_redraw := True\<rparr>) \<and>
   learn (default_meter\<lparr>learn_noise := True, noise_band_db := Some [- 50, - 60]\<rparr>) 48000 4096
      [(0, 1), (0, 0)] (\<lambda>j. (True, None))
     = Inr (default_meter\<lparr>noise_band_db := Some [- 50, - 60]\<rparr>) \<and>
   learn_frames 48000 4096 = Inr 35"
proof -
  let ?env = "\<lambda>j::nat. (3 \<le> j, if j = 1 then None else Some [99999999 / 10 ^ 8, 1 :: real])"
  let ?bins = "[(0, 1), (0, 0)] :: (nat \<times> nat) list"
  have fit: "bins_fit ?bins (length mag)" if "snd (?env j) = Some mag" for j mag
    using that by (auto simp: bins_fit_def split: if_splits)
  have fit': "bins_fit ?bins (length mag)" if "snd (True, None :: real list option) = Some mag" for mag
    using that by simp
  have m: "learn_noise (default_meter\<lparr>learn_noise := True\<rparr>)"
    "learn_noise (default_meter\<lparr>learn_noise := True, noise_band_db := Some [- 50, - 60]\<rparr>)"
    by simp_all
  have c: "captured_frames ?env 35 = [[99999999 / 10 ^ 8, 1], [99999999 / 10 ^ 8, 1]]"
    by (simp add: captured_frames_def upt_rec [of _ "numeral _"])
  have c': "captured_frames (\<lambda>j. (True, None)) 35 = []"
    by (simp add: captured_frames_def upt_rec [of _ "numeral _"])
  have p: "band_p90 ?bins [99999999 / 10 ^ 8, 1] = [0, - 120]"
    by (simp add: band_p90_def to_db_def slice_def percentile_linear_def)
  have h: "(0::int) \<le> 48000" "(0::int) < 4096" by simp_all
  show ?thesis
    using learn_noise_profile [of "default_meter\<lparr>learn_noise := True\<rparr>" 48000 4096 ?env ?bins,
        OF m(1) h fit]
      learn_noise_profile [of "default_meter\<lparr>learn_noise := True, noise_band_db := Some [- 50, - 60]\<rparr>"
        48000 4096 "\<lambda>j. (True, None)" ?bins, OF m(2) h fit']
      c c' p
    by (simp add: np_median_def default_meter_def)
qed

text \<open>
  The claim as stated fails on the number of frames: at 48000 Hz and 4096 samples the
  code runs 35 iterations, while \<open>max(12, ceil(3 * 48000 / 4096))\<close> is 36.
\<close>

theorem learn_frames_truncates:
  "learn_frames 48000 4096 = Inr 35 \<and> max 12 \<lceil>3 * 48000 / 4096 :: real\<rceil> = 36"
  by (simp add: learn_frames_def py_int_def)

subsection \<open>Band statistic\<close>

lemma np_max_Max:
  assumes "seg \<noteq> []"
  shows "np_max seg = Inr (Max (set seg))"
proof (cases seg)
  case Nil
  with assms show ?thesis by simp
next
  case (Cons x rest)
  then show ?thesis using Max.set_eq_fold [of x rest] by (simp add: np_max_def)
qed

lemma le_pred_less: "k \<le> n - 1 \<Longrightarrow> 0 < n \<Longrightarrow> k < (n::nat)"
  by arith

lemma percentile_linear_between:
  assumes "xs \<noteq> []" "0 \<le> q" "q \<le> 100"
  shows "nat \<lfloor>real (length xs - 1) * (q / 100)\<rfloor> \<le> length xs - 1 \<and>
         sort xs ! nat \<lfloor>real (length xs - 1) * (q / 100)\<rfloor> \<le> percentile_linear xs q \<and>
         percentile_linear xs q
           \<le> sort xs ! min (nat \<lfloor>real (length xs - 1) * (q / 100)\<rfloor> + 1) (length xs - 1)"
proof -
  let ?n = "length xs"
  let ?v = "real (?n - 1) * (q / 100)"
  let ?lo = "nat \<lfloor>?v\<rfloor>"
  let ?hi = "min (?lo + 1) (?n - 1)"
  let ?g = "?v - real ?lo"
  let ?s = "sort xs"
  have n: "0 < ?n" using assms(1) by simp
  have v0: "0 \<le> ?v" using assms(2) by simp
  have "q / 100 \<le> 1" using assms(3) by simp
  then have "real (?n - 1) * (q / 100) \<le> real (?n - 1) * 1"
    by (intro mult_left_mono) simp_all
  then have v1: "?v \<le> real (?n - 1)" by simp
  have "\<lfloor>?v\<rfloor> \<le> int (?n - 1)" using v1 by (simp add: floor_le_iff)
  then have lo: "?lo \<le> ?n - 1" by simp
  have r: "real ?lo = of_int \<lfloor>?v\<rfloor>" using v0 by simp
  have g0: "0 \<le> ?g" unfolding r by linarith
  have g1: "?g \<le> 1" unfolding r by linarith
  have le: "?lo \<le> ?hi" using lo by simp
  have "?hi \<le> ?n - 1" by (rule min.cobounded2)
  then have "?hi < ?n" using n by (rule le_pred_less)
  then have hi: "?hi < length ?s" by (simp only: length_sort)
  have mono: "?s ! ?lo \<le> ?s ! ?hi"
    by (rule sorted_nth_mono [OF sorted_sort le hi])
  have p: "percentile_linear xs q = ?s ! ?lo + (?s ! ?hi - ?s ! ?lo) * ?g"
    by (simp add: percentile_linear_def Let_def)
  have a: "0 \<le> (?s ! ?hi - ?s ! ?lo) * ?g"
    by (rule mult_nonneg_nonneg) (use mono g0 in linarith)+
  have "(?s ! ?hi - ?s ! ?lo) * ?g \<le> (?s ! ?hi - ?s ! ?lo) * 1"
    by (rule mult_left_mono) (use mono g1 in linarith)+
  then have b: "(?s ! ?hi - ?s ! ?lo) * ?g \<le> ?s ! ?hi - ?s ! ?lo"
    by (simp only: mult_1_right)
  show ?thesis
  proof (intro conjI)
    show "?lo \<le> ?n - 1" by (rule lo)
    show "?s ! ?lo \<le> percentile_linear xs q" unfolding p using a by linarith
    show "percentile_linear xs q \<le> ?s ! ?hi" unfolding p using b by linarith
  qed
qed

lemma rms_eq:
  "seg \<noteq> [] \<Longrightarrow> band_stat_db ''rms'' seg =
     Inr (20 * log 10 (sqrt ((\<Sum>d\<leftarrow>seg. (10 powr (d / 20))\<^sup>2) / real (length seg)) + 1 / 10 ^ 12))"
  by (simp add: band_stat_db_def np_mean_def Let_def comp_def power2_eq_square)

text \<open>
  C2, as the code has it. For a non-empty band inside the spectrum, over the band's slice
  of the dB spectrum (each bin's dB being \<open>20 * log10(magnitude + 1e-8)\<close>): mode max gives
  the maximum; mode p90 gives the 90th percentile with linear interpolation between the
  two sorted entries around the rank \<open>0.9 * (n - 1)\<close>; mode rms gives
  \<open>20 * log10(rms + 1e-12)\<close>, where \<open>rms\<close> is the root of the mean of the squared linear
  amplitudes \<open>10^(dB/20)\<close>. An empty band gives -120 dB.
\<close>

theorem band_statistic:
  assumes "a < b" "a < length mag"
  shows "(\<forall>k < length mag. to_db mag ! k = 20 * log 10 (mag ! k + 1 / 10 ^ 8)) \<and>
         band_stat_db ''max'' (slice (to_db mag) a b) = Inr (Max (set (slice (to_db mag) a b))) \<and>
         band_stat_db ''p90'' (slice (to_db mag) a b)
           = Inr (let s = sort (slice (to_db mag) a b);
                      v = real (length s - 1) * (90 / 100);
                      lo = nat \<lfloor>v\<rfloor>;
                      hi = min (lo + 1) (length s - 1)
                  in (1 - (v - real lo)) * s ! lo + (v - real lo) * s ! hi) \<and>
         band_stat_db ''rms'' (slice (to_db mag) a b)
           = Inr (20 * log 10
                    (sqrt ((\<Sum>d\<leftarrow>slice (to_db mag) a b. (10 powr (d / 20))\<^sup>2)
                           / real (length (slice (to_db mag) a b))) + 1 / 10 ^ 12)) \<and>
         (\<forall>m i a' b'. b' \<le> a' \<longrightarrow> band_db_of m (to_db mag) i (a', b') = Inr (- 120))"
proof -
  let ?seg = "slice (to_db mag) a b"
  have ne: "?seg \<noteq> []" using assms by (simp add: slice_def to_db_def)
  have 1: "\<forall>k < length mag. to_db mag ! k = 20 * log 10 (mag ! k + 1 / 10 ^ 8)"
    by (simp add: to_db_def)
  have 2: "band_stat_db ''max'' ?seg = Inr (Max (set ?seg))"
    using ne by (simp add: band_stat_db_def np_max_Max)
  have 3: "band_stat_db ''p90'' ?seg
           = Inr (let s = sort ?seg;
                      v = real (length s - 1) * (90 / 100);
                      lo = nat \<lfloor>v\<rfloor>;
                      hi = min (lo + 1) (length s - 1)
                  in (1 - (v - real lo)) * s ! lo + (v - real lo) * s ! hi)"
    using ne by (simp add: band_stat_db_def np_percentile_def percentile_linear_def Let_def algebra_simps)
  have 4: "\<forall>m i a' b'. b' \<le> a' \<longrightarrow> band_db_of m (to_db mag) i (a', b') = Inr (- 120)"
    by (simp add: band_db_of_def)
  show ?thesis using 1 2 3 4 rms_eq [OF ne] by blast
qed

theorem band_statistic_witness:
  "band_stat_db ''max'' (slice (to_db [99999999 / 10 ^ 8, 999999999 / 10 ^ 8]) 0 2) = Inr 20 \<and>
   band_stat_db ''p90'' (slice (to_db [99999999 / 10 ^ 8, 999999999 / 10 ^ 8]) 0 2) = Inr 18 \<and>
   band_stat_db ''rms'' (slice (to_db [99999999 / 10 ^ 8, 999999999 / 10 ^ 8]) 0 1)
     = Inr (20 * log 10 (1 + 1 / 10 ^ 12)) \<and>
   band_db_of default_meter (to_db [99999999 / 10 ^ 8, 999999999 / 10 ^ 8]) 0 (0, 0) = Inr (- 120)"
proof -
  have d: "to_db [99999999 / 10 ^ 8, 999999999 / 10 ^ 8] = [0, 20]"
    by (simp add: to_db_def)
  have h: "(0::nat) < 2" "(0::nat) < 1" "0 < length [99999999 / 10 ^ 8, 999999999 / 10 ^ 8 :: real]"
    by simp_all
  show ?thesis
    using band_statistic [OF h(1) h(3)] band_statistic [OF h(2) h(3)] d
    by (simp add: slice_def Let_def band_db_of_def)
qed

text \<open>
  The claim as stated fails for mode rms: for a silent bin (magnitude 0, -160 dB) the
  root-mean-square amplitude is 1e-8, whose dB is -160, while the code returns
  \<open>20 * log10(1e-8 + 1e-12)\<close>, which is larger.
\<close>

theorem rms_guard_differs:
  "sqrt (np_mean (map (\<lambda>d. (10 powr (d / 20))\<^sup>2) (slice (to_db [0]) 0 1))) = 1 / 10 ^ 8 \<and>
   band_stat_db ''rms'' (slice (to_db [0]) 0 1) = Inr (20 * log 10 (1 / 10 ^ 8 + 1 / 10 ^ 12)) \<and>
   20 * log 10 (1 / 10 ^ 8 :: real) < 20 * log 10 (1 / 10 ^ 8 + 1 / 10 ^ 12)"
proof -
  have p: "(10::real) powr (- 8) = 1 / 10 ^ 8" by (simp add: powr_minus_divide)
  have d: "to_db [0] = [- 160]"
    unfolding to_db_def p [symmetric] by simp
  have "band_stat_db ''rms'' [- 160] = Inr (20 * log 10 (1 / 10 ^ 8 + 1 / 10 ^ 12))"
    by (simp add: rms_eq p)
  moreover have "sqrt (np_mean (map (\<lambda>d. (10 powr (d / 20))\<^sup>2) [- 160])) = 1 / 10 ^ 8"
    by (simp add: np_mean_def p)
  ultimately show ?thesis by (simp add: d slice_def)
qed

subsection \<open>Band plan\<close>


lemma linspace_nth:
  assumes "i \<le> n"
  shows "linspace s e (n + 1) ! i = s + real i * ((e - s) / real n)"
proof -
  have "linspace s e (n + 1) ! i =
          (if 1 < n + 1 \<and> i = n then e else s + real i * ((e - s) / real n))"
    using assms by (simp add: linspace_def del: upt_Suc)
  also have "\<dots> = s + real i * ((e - s) / real n)"
    by (cases "n = 0") auto
  finally show ?thesis .
qed

lemma logspace_nth:
  assumes "i \<le> n"
  shows "logspace s e (n + 1) ! i = 10 powr (s + real i * ((e - s) / real n))"
proof -
  have "length (linspace s e (n + 1)) = n + 1" by (simp add: linspace_def Let_def)
  then show ?thesis using assms linspace_nth [OF assms, of s e]
    by (simp add: logspace_def del: upt_Suc)
qed

lemma edge_formula:
  assumes "0 < fmin" "0 < fmax"
  shows "10 powr (log 10 fmin + real i * ((log 10 fmax - log 10 fmin) / real n))
           = band_edge fmin fmax n i"
proof -
  have q: "0 < fmax / fmin" using assms by simp
  have "log 10 fmax - log 10 fmin = log 10 (fmax / fmin)"
    using assms by (simp add: log_divide)
  then have "real i * ((log 10 fmax - log 10 fmin) / real n)
               = log 10 (fmax / fmin) * (real i / real n)"
    by simp
  then have "10 powr (log 10 fmin + real i * ((log 10 fmax - log 10 fmin) / real n))
               = 10 powr (log 10 fmin) * (10 powr (log 10 (fmax / fmin))) powr (real i / real n)"
    by (simp only: powr_add powr_powr)
  also have "\<dots> = fmin * (fmax / fmin) powr (real i / real n)"
    using assms q by simp
  finally show ?thesis by (simp add: band_edge_def)
qed




lemma band_range_empty:
  assumes "\<And>k. k < length freqs \<Longrightarrow> \<not> (lo \<le> freqs ! k \<and> freqs ! k < hi)"
  shows "band_range freqs lo hi = (0, 0)"
proof -
  have "filter (\<lambda>k. lo \<le> freqs ! k \<and> freqs ! k < hi) [0..<length freqs] = []"
    using assms by (auto simp: filter_empty_conv)
  then show ?thesis by (simp add: band_range_def)
qed



lemma rfftfreq_eq:
  assumes "sr \<noteq> 0" "nfft \<noteq> 0"
  shows "rfftfreq nfft (1 / sr)
           = Inr (map (\<lambda>k. real k * sr / real_of_int nfft) [0..<nat (nfft div 2 + 1)])"
  using assms by (simp add: rfftfreq_def Let_def)

lemma build_band_bins_eq:
  assumes "sr \<noteq> 0" "nfft \<noteq> 0" "0 < fmin" "0 < fmax"
  shows "build_band_bins sr nfft n fmin fmax
           = Inr (map (\<lambda>i. band_range (map (\<lambda>k. real k * sr / real_of_int nfft) [0..<nat (nfft div 2 + 1)])
                            (band_edge fmin fmax n i) (band_edge fmin fmax n (i + 1)))
                    [0..<n])"
proof -
  have e: "logspace (log 10 fmin) (log 10 fmax) (Suc n) ! i = band_edge fmin fmax n i" if "i \<le> n" for i
    using logspace_nth [OF that, of "log 10 fmin" "log 10 fmax"] edge_formula [OF assms(3,4), of i n]
    by simp
  have "map (\<lambda>i. band_range freqs (logspace (log 10 fmin) (log 10 fmax) (n + 1) ! i)
                      (logspace (log 10 fmin) (log 10 fmax) (n + 1) ! (i + 1))) [0..<n]
      = map (\<lambda>i. band_range freqs (band_edge fmin fmax n i) (band_edge fmin fmax n (i + 1))) [0..<n]"
    for freqs
    by (rule map_cong) (simp_all add: e)
  then show ?thesis
    using assms by (simp add: build_band_bins_def rfftfreq_eq Let_def)
qed

lemma build_band_bins_error_iff:
  "(\<exists>e. build_band_bins sr nfft n fmin fmax = Inl e)
     = (sr = 0 \<or> nfft = 0 \<or> fmin \<le> 0 \<or> fmax \<le> 0)"
proof (cases "sr = 0 \<or> nfft = 0")
  case True
  then show ?thesis by (auto simp: build_band_bins_def rfftfreq_def)
next
  case False
  then show ?thesis by (auto simp: build_band_bins_def rfftfreq_eq Let_def)
qed

lemma band_edge_pos: "0 < fmin \<Longrightarrow> 0 < fmax \<Longrightarrow> 0 < band_edge fmin fmax n i"
  by (simp add: band_edge_def)


lemma band_edge_antimono:
  assumes "0 < fmax" "fmax \<le> fmin" "i \<le> j"
  shows "band_edge fmin fmax n j \<le> band_edge fmin fmax n i"
proof -
  have "0 \<le> fmax / fmin" "fmax / fmin \<le> 1" using assms(1,2) by simp_all
  moreover have "real i / real n \<le> real j / real n" using assms(3) by (simp add: divide_right_mono)
  ultimately have "(fmax / fmin) powr (real j / real n) \<le> (fmax / fmin) powr (real i / real n)"
    by (intro powr_mono') simp_all
  then show ?thesis using assms(1,2) by (simp add: band_edge_def mult_left_mono)
qed

lemma build_band_bins_all_empty:
  assumes "sr \<noteq> 0" "nfft \<noteq> 0" "0 < fmin" "0 < fmax"
    and "fmax \<le> fmin \<or> sr < 0 \<or> nfft < 0"
  shows "build_band_bins sr nfft n fmin fmax = Inr (replicate n (0, 0))"
proof -
  let ?freqs = "map (\<lambda>k. real k * sr / real_of_int nfft) [0..<nat (nfft div 2 + 1)]"
  have "band_range ?freqs (band_edge fmin fmax n i) (band_edge fmin fmax n (i + 1)) = (0, 0)" for i
  proof (rule band_range_empty)
    fix k
    assume k: "k < length ?freqs"
    then have f: "?freqs ! k = real k * sr / real_of_int nfft" by simp
    have "nfft div 2 + 1 \<le> 0" if "nfft < 0" using that by arith
    with k assms(2) have pos: "0 < nfft" by (cases "0 < nfft") auto
    show "\<not> (band_edge fmin fmax n i \<le> ?freqs ! k \<and> ?freqs ! k < band_edge fmin fmax n (i + 1))"
    proof (cases "fmax \<le> fmin")
      case True
      have "band_edge fmin fmax n (i + 1) \<le> band_edge fmin fmax n i"
        using assms(4) True by (intro band_edge_antimono) simp_all
      then show ?thesis by linarith
    next
      case False
      with assms(5) pos have "sr < 0" by auto
      then have "real k * sr / real_of_int nfft \<le> 0"
        using pos by (simp add: divide_le_0_iff mult_le_0_iff)
      moreover have "0 < band_edge fmin fmax n i" using assms(3,4) by (rule band_edge_pos)
      ultimately show ?thesis unfolding f by linarith
    qed
  qed
  then show ?thesis
    using assms(1-4) by (simp add: build_band_bins_eq map_replicate_const)
qed








subsection \<open>Configuration errors\<close>

lemma levels_loop_unknown:
  assumes "band_stat m \<noteq> ''max''" "band_stat m \<noteq> ''p90''" "band_stat m \<noteq> ''rms''"
    and "db_range m \<noteq> 0"
  shows "i + length bins \<le> length peaks \<Longrightarrow> \<exists>ab \<in> set bins. fst ab < snd ab \<Longrightarrow>
         levels_loop m mag_db i bins peaks = Inl (UnknownStatMode (band_stat m))"
proof (induction bins arbitrary: i peaks)
  case Nil
  then show ?case by simp
next
  case (Cons ab rest)
  obtain a b where ab: "ab = (a, b)" by (cases ab)
  show ?case
  proof (cases "a < b")
    case True
    then have "band_db_of m mag_db i ab = Inl (UnknownStatMode (band_stat m))"
      using assms(1-3) by (simp add: ab band_db_of_def band_stat_db_def)
    then show ?thesis by (simp add: band_step_def)
  next
    case False
    then have d: "band_db_of m mag_db i ab = Inr (- 120)" by (simp add: ab band_db_of_def)
    let ?p1 = "peaks[i := peak_update (- 120) (peaks ! i)]"
    obtain lv where s: "band_step m mag_db peaks i ab = Inr (?p1, lv)"
      using d Cons.prems(1) assms(4) by (simp add: band_step_def normalize_level_eq)
    from Cons.prems(2) False have "\<exists>ab \<in> set rest. fst ab < snd ab" by (auto simp: ab)
    moreover have "Suc i + length rest \<le> length ?p1" using Cons.prems(1) by simp
    ultimately have "levels_loop m mag_db (Suc i) rest ?p1 = Inl (UnknownStatMode (band_stat m))"
      by (rule Cons.IH [rotated])
    then show ?thesis using s by simp
  qed
qed

lemma process_frame_unknown:
  assumes "band_stat m \<noteq> ''max''" "band_stat m \<noteq> ''p90''" "band_stat m \<noteq> ''rms''"
    and "db_range m \<noteq> 0" "length bins \<le> length (band_peak_db w)"
    and "\<exists>ab \<in> set bins. fst ab < snd ab"
  shows "process_frame m w bins mag = Inl (UnknownStatMode (band_stat m))"
  using levels_loop_unknown [OF assms(1-4), of 0 bins "band_peak_db w" "to_db mag"] assms(5,6)
  by (simp add: process_frame_def)

lemma process_frame_all_empty:
  assumes "db_range m \<noteq> 0" "length bins \<le> length (band_peak_db w)"
    and "\<forall>ab \<in> set bins. snd ab \<le> fst ab"
  shows "\<exists>r. process_frame m w bins mag = Inr r"
proof -
  have "\<exists>b. band_db_of m (to_db mag) (0 + j) (bins ! j) = Inr b" if "j < length bins" for j
  proof -
    have "snd (bins ! j) \<le> fst (bins ! j)" using assms(3) that by simp
    then show ?thesis by (cases "bins ! j") (simp add: band_db_of_def)
  qed
  then obtain peaks' lvs where "levels_loop m (to_db mag) 0 bins (band_peak_db w) = Inr (peaks', lvs)"
    using levels_loop_returns [of m 0 bins "band_peak_db w" "to_db mag"] assms(1,2) by auto
  then have "process_frame m w bins mag
               = Inr (change_detector m (w\<lparr>band_peak_db := peaks'\<rparr>) lvs (db_range m) (bg_mode m)
                        (max_level m) (band_stat m))"
    by (simp add: process_frame_def)
  then show ?thesis by (rule exI)
qed

text \<open>
  C7, as the code has it. \<open>build_band_bins\<close> validates nothing itself: it fails exactly
  when the sample rate or the transform size is zero (division by zero) or a frequency
  bound is not positive (logarithm). A negative sample rate or transform size, or
  \<open>minFrequency \<ge> maxFrequency\<close>, gives a plan whose bands are all empty, without an
  error. The setter of the statistic mode accepts every string; an unrecognized mode is
  rejected inside the frame loop, by the first non-empty band of the frame, and not at
  all when every band is empty.
\<close>

theorem config_errors:
  "((\<exists>e. build_band_bins sr nfft n fmin fmax = Inl e)
      = (sr = 0 \<or> nfft = 0 \<or> fmin \<le> 0 \<or> fmax \<le> 0)) \<and>
   (sr \<noteq> 0 \<and> nfft \<noteq> 0 \<and> 0 < fmin \<and> 0 < fmax \<and> (fmax \<le> fmin \<or> sr < 0 \<or> nfft < 0)
      \<longrightarrow> build_band_bins sr nfft n fmin fmax = Inr (replicate n (0, 0))) \<and>
   band_stat (set_band_stat mode m) = mode \<and>
   (band_stat m \<noteq> ''max'' \<and> band_stat m \<noteq> ''p90'' \<and> band_stat m \<noteq> ''rms'' \<and>
    db_range m \<noteq> 0 \<and> length bins \<le> length (band_peak_db w)
      \<longrightarrow> ((\<exists>ab \<in> set bins. fst ab < snd ab)
              \<longrightarrow> process_frame m w bins mag = Inl (UnknownStatMode (band_stat m))) \<and>
          ((\<forall>ab \<in> set bins. snd ab \<le> fst ab) \<longrightarrow> (\<exists>r. process_frame m w bins mag = Inr r)))"
  using build_band_bins_error_iff [of sr nfft n fmin fmax]
    build_band_bins_all_empty [of sr nfft fmin fmax n]
    process_frame_unknown [of m bins w mag] process_frame_all_empty [of m bins w mag]
  by (simp add: set_band_stat_def)

theorem config_errors_witness:
  "build_band_bins 0 4096 8 80 16000 = Inl ZeroDivisionError \<and>
   build_band_bins (- 48000) 4096 8 80 16000 = Inr (replicate 8 (0, 0)) \<and>
   process_frame (set_band_stat ''median'' default_meter) (initial_worker 2) [(0, 0), (0, 1)] [1]
     = Inl (UnknownStatMode ''median'') \<and>
   (\<exists>r. process_frame (set_band_stat ''median'' default_meter) (initial_worker 2) [(0, 0), (3, 3)] [1]
          = Inr r)"
proof -
  let ?m = "set_band_stat ''median'' default_meter"
  have z: "build_band_bins 0 4096 8 80 16000 = Inl ZeroDivisionError"
    by (simp add: build_band_bins_def)
  show ?thesis
    using config_errors [where sr = "- 48000" and nfft = 4096 and n = 8 and fmin = 80
        and fmax = 16000 and m = ?m and bins = "[(0, 0), (0, 1)]" and w = "initial_worker 2"
        and mag = "[1]"]
      config_errors [where sr = 0 and nfft = 4096 and n = 8 and fmin = 80
        and fmax = 16000 and m = ?m and bins = "[(0, 0), (3, 3)]" and w = "initial_worker 2"
        and mag = "[1]"] z
    by (simp add: set_band_stat_def default_meter_def initial_worker_def)
qed

text \<open>
  The claim as stated fails: with the frequency bounds swapped the band plan builder
  returns eight empty bands and no error, and an unrecognized statistic mode set through
  the setter is only rejected by the frame that uses it.
\<close>

theorem config_not_validated:
  "build_band_bins 48000 4096 8 16000 80 = Inr (replicate 8 (0, 0)) \<and>
   process_frame (set_band_stat ''median'' default_meter) (initial_worker 1) [(0, 1)] [1]
     = Inl (UnknownStatMode ''median'')"
proof -
  have "build_band_bins 48000 4096 8 16000 80 = Inr (replicate 8 (0, 0))"
    by (rule build_band_bins_all_empty) simp_all
  moreover have "process_frame (set_band_stat ''median'' default_meter) (initial_worker 1) [(0, 1)] [1]
     = Inl (UnknownStatMode (band_stat (set_band_stat ''median'' default_meter)))"
    by (rule process_frame_unknown)
      (simp_all add: set_band_stat_def default_meter_def initial_worker_def)
  ultimately show ?thesis by (simp add: set_band_stat_def)
qed

end
